theory Spec2Isabelle
  imports Complex_Main
begin

section \<open>The Bleve search engine adapter (services/searchengine/bleveengine/bleve.go)\<close>

text \<open>
  The adapter translates search requests of the host application into query trees of the
  bleve library and hands them to three indexes (posts, users, channels). The library, the
  file system, the logger and the \<open>model\<close> package are collaborators of the file: their
  operations are parameters of the model (the record \<open>env\<close>), and every call the adapter
  makes to one of them is appended to a history of calls.

  Conventions of the embedding:
  \<^item> a Go struct is a record, with the fields the file reads;
  \<^item> a pointer parameter (\<open>*model.Config\<close>, \<open>*model.ChannelList\<close>, \<open>*model.SearchParams\<close>,
    \<open>*model.UserSearchOptions\<close>) is the value it points to: the host always passes valid
    references, and the model has no nil for them;
  \<^item> an index handle is an interface value and may be nil (an engine that was never
    started): \<open>index option\<close>, and a method call on nil is the outcome \<open>Panic\<close>;
  \<^item> a slice whose nil-ness the code tests (\<open>restrictedToChannels\<close>) is a
    \<open>string list option\<close>, \<open>None\<close> for nil; the other slices are lists;
  \<^item> a method with the receiver \<open>b *BleveEngine\<close> takes the engine and the history and
    returns its result with the engine and the history after the call.
\<close>

subsection \<open>Query trees of the bleve library\<close>

text \<open>
  \<open>float64\<close> values are the reals they denote; the conversion \<open>float64(x)\<close> of an
  \<open>int64\<close> is the parameter \<open>float64_of\<close> of the environment.
\<close>

type_synonym float64 = real

text \<open>
  A query is the tree its constructor calls build. The last argument of a term, match,
  prefix and numeric range query is its field (\<open>FieldVal\<close>), empty until \<open>SetField\<close>.
  A boolean query holds the clauses that \<open>AddMust\<close>, \<open>AddShould\<close> and \<open>AddMustNot\<close> have
  appended, in order.
\<close>

datatype query =
    TermQuery string string
  | MatchQuery string string
  | PrefixQuery string string
  | NumericRangeQuery "float64 option" "float64 option" string
  | ConjunctionQuery "query list"
  | DisjunctionQuery "query list"
  | BooleanQuery (Must: "query list") (Should: "query list") (MustNot: "query list")
  | MatchAllQuery

definition NewTermQuery :: "string \<Rightarrow> query" where
  "NewTermQuery t = TermQuery t ''''"

definition NewMatchQuery :: "string \<Rightarrow> query" where
  "NewMatchQuery m = MatchQuery m ''''"

definition NewPrefixQuery :: "string \<Rightarrow> query" where
  "NewPrefixQuery p = PrefixQuery p ''''"

definition NewNumericRangeQuery :: "float64 option \<Rightarrow> float64 option \<Rightarrow> query" where
  "NewNumericRangeQuery mn mx = NumericRangeQuery mn mx ''''"

definition NewConjunctionQuery :: "query list \<Rightarrow> query" where
  "NewConjunctionQuery conjuncts = ConjunctionQuery conjuncts"

definition NewDisjunctionQuery :: "query list \<Rightarrow> query" where
  "NewDisjunctionQuery disjuncts = DisjunctionQuery disjuncts"

definition NewBooleanQuery :: query where
  "NewBooleanQuery = BooleanQuery [] [] []"

definition NewMatchAllQuery :: query where
  "NewMatchAllQuery = MatchAllQuery"

text \<open>
  The setters are methods of the concrete query types; Go's types exclude the last
  equation of each.
\<close>

fun SetField :: "string \<Rightarrow> query \<Rightarrow> query" where
  "SetField f (TermQuery t _) = TermQuery t f"
| "SetField f (MatchQuery m _) = MatchQuery m f"
| "SetField f (PrefixQuery p _) = PrefixQuery p f"
| "SetField f (NumericRangeQuery mn mx _) = NumericRangeQuery mn mx f"
| "SetField f q = q"

fun AddQuery :: "query \<Rightarrow> query \<Rightarrow> query" where
  "AddQuery aq (DisjunctionQuery qs) = DisjunctionQuery (qs @ [aq])"
| "AddQuery aq (ConjunctionQuery qs) = ConjunctionQuery (qs @ [aq])"
| "AddQuery aq q = q"

fun AddMust :: "query list \<Rightarrow> query \<Rightarrow> query" where
  "AddMust ms (BooleanQuery must should mustNot) = BooleanQuery (must @ ms) should mustNot"
| "AddMust ms q = q"

fun AddMustNot :: "query list \<Rightarrow> query \<Rightarrow> query" where
  "AddMustNot ms (BooleanQuery must should mustNot) = BooleanQuery must should (mustNot @ ms)"
| "AddMustNot ms q = q"

datatype SearchRequest = NewSearchRequest query

datatype DocumentMatch = DocumentMatch (ID: string)

datatype SearchResult = SearchResult (Hits: "DocumentMatch list")

subsection \<open>Index mappings\<close>

datatype FieldMapping = TextFieldMapping string | NumericFieldMapping

type_synonym DocumentMapping = "(string \<times> FieldMapping) list"

type_synonym IndexMappingImpl = "(string \<times> DocumentMapping) list"

definition keywordMapping :: FieldMapping where
  "keywordMapping = TextFieldMapping ''keyword''"

definition standardMapping :: FieldMapping where
  "standardMapping = TextFieldMapping ''standard''"

definition dateMapping :: FieldMapping where
  "dateMapping = NumericFieldMapping"

definition AddFieldMappingsAt :: "string \<Rightarrow> FieldMapping \<Rightarrow> DocumentMapping \<Rightarrow> DocumentMapping" where
  "AddFieldMappingsAt f m d = d @ [(f, m)]"

definition AddDocumentMapping :: "string \<Rightarrow> DocumentMapping \<Rightarrow> IndexMappingImpl \<Rightarrow> IndexMappingImpl" where
  "AddDocumentMapping n d im = im @ [(n, d)]"

definition getChannelIndexMapping :: IndexMappingImpl where
  "getChannelIndexMapping =
     (let channelMapping = [];
          channelMapping = AddFieldMappingsAt ''Id'' keywordMapping channelMapping;
          channelMapping = AddFieldMappingsAt ''TeamId'' keywordMapping channelMapping;
          channelMapping = AddFieldMappingsAt ''NameSuggest'' keywordMapping channelMapping
      in AddDocumentMapping ''_default'' channelMapping [])"

definition getPostIndexMapping :: IndexMappingImpl where
  "getPostIndexMapping =
     (let postMapping = [];
          postMapping = AddFieldMappingsAt ''Id'' keywordMapping postMapping;
          postMapping = AddFieldMappingsAt ''TeamId'' keywordMapping postMapping;
          postMapping = AddFieldMappingsAt ''ChannelId'' keywordMapping postMapping;
          postMapping = AddFieldMappingsAt ''UserId'' keywordMapping postMapping;
          postMapping = AddFieldMappingsAt ''CreateAt'' dateMapping postMapping;
          postMapping = AddFieldMappingsAt ''Message'' standardMapping postMapping;
          postMapping = AddFieldMappingsAt ''Type'' keywordMapping postMapping;
          postMapping = AddFieldMappingsAt ''Hashtags'' standardMapping postMapping;
          postMapping = AddFieldMappingsAt ''Attachments'' standardMapping postMapping
      in AddDocumentMapping ''_default'' postMapping [])"

definition getUserIndexMapping :: IndexMappingImpl where
  "getUserIndexMapping =
     (let userMapping = [];
          userMapping = AddFieldMappingsAt ''Id'' keywordMapping userMapping;
          userMapping = AddFieldMappingsAt ''SuggestionsWithFullname'' keywordMapping userMapping;
          userMapping = AddFieldMappingsAt ''SuggestionsWithoutFullname'' keywordMapping userMapping;
          userMapping = AddFieldMappingsAt ''TeamsIds'' keywordMapping userMapping;
          userMapping = AddFieldMappingsAt ''ChannelsIds'' keywordMapping userMapping
      in AddDocumentMapping ''_default'' userMapping [])"

subsection \<open>The host's data: configuration, search parameters, errors\<close>

text \<open>
  Modelled from the spec: the declarations of the types of the \<open>model\<close> package
  (\<open>Config\<close>, \<open>SearchParams\<close>, \<open>Channel\<close>, \<open>UserSearchOptions\<close>, \<open>AppError\<close>) are not
  among the sources. Each is a record of the fields that \<open>bleve.go\<close> reads, under the
  names it reads them by: the four settings that section 6 of the specification lists
  for the configuration, the attributes that section 3 lists for the search parameters.
  The settings are pointers in Go, set by the host before the engine sees them; the
  record holds their values.
\<close>

record BleveSettings =
  EnableIndexing :: bool
  IndexDir :: string
  EnableSearching :: bool
  EnableAutocomplete :: bool

record Config =
  BleveSettings :: BleveSettings

record SearchParams =
  Terms :: string
  OrTerms :: bool
  InChannels :: "string list"
  ExcludedChannels :: "string list"
  FromUsers :: "string list"
  ExcludedUsers :: "string list"
  OnDate :: string
  AfterDate :: string
  BeforeDate :: string
  ExcludedDate :: string
  ExcludedAfterDate :: string
  ExcludedBeforeDate :: string

text \<open>The field \<open>Id\<close> of a channel is \<open>Id'\<close> here: \<open>Id\<close> is the identity relation of HOL.\<close>

record Channel =
  Id' :: string

type_synonym ChannelList = "Channel list"

record UserSearchOptions =
  AllowFullNames :: bool

text \<open>
  An application error is the call that made it: \<open>model.NewAppError(where, id, nil,
  details, status)\<close>.
\<close>

datatype AppError = NewAppError string string string nat

definition StatusInternalServerError :: nat where
  "StatusInternalServerError = 500"

datatype panic = NilDereference | IndexOutOfRange

datatype 'a outcome = Panic panic | Return 'a

subsection \<open>The collaborators and the history of calls\<close>

type_synonym index = nat

datatype call =
    Warn string
  | Open string
  | New string IndexMappingImpl
  | Close index
  | Search index SearchRequest

type_synonym history = "call list"

text \<open>
  What a collaborator answers may depend on everything that was called before, so each
  operation of the library takes the history. An error of the library is its message
  (\<open>err.Error()\<close>). The date methods of \<open>model.SearchParams\<close> return milliseconds as
  \<open>int64\<close>.
\<close>

record env =
  bleve_Open :: "history \<Rightarrow> string \<Rightarrow> string + index"
  bleve_New :: "history \<Rightarrow> string \<Rightarrow> IndexMappingImpl \<Rightarrow> string + index"
  Index_Close :: "history \<Rightarrow> index \<Rightarrow> string option"
  Index_Search :: "history \<Rightarrow> index \<Rightarrow> SearchRequest \<Rightarrow> string + SearchResult"
  filepath_Join :: "string \<Rightarrow> string \<Rightarrow> string"
  strings_ToLower :: "string \<Rightarrow> string"
  float64_of :: "int \<Rightarrow> float64"
  GetOnDateMillis :: "SearchParams \<Rightarrow> int \<times> int"
  GetAfterDateMillis :: "SearchParams \<Rightarrow> int"
  GetBeforeDateMillis :: "SearchParams \<Rightarrow> int"
  GetExcludedAfterDateMillis :: "SearchParams \<Rightarrow> int"
  GetExcludedBeforeDateMillis :: "SearchParams \<Rightarrow> int"
  GetExcludedDateMillis :: "SearchParams \<Rightarrow> int \<times> int"

subsection \<open>The engine\<close>

type_synonym JobServer = nat

record BleveEngine =
  postIndex :: "index option"
  userIndex :: "index option"
  channelIndex :: "index option"
  cfg :: Config
  jobServer :: JobServer
  indexSync :: bool

definition NewBleveEngine :: "Config \<Rightarrow> JobServer \<Rightarrow> BleveEngine" where
  "NewBleveEngine c js =
     \<lparr>postIndex = None, userIndex = None, channelIndex = None,
      cfg = c, jobServer = js, indexSync = False\<rparr>"

text \<open>
  \<open>createOrOpenIndex\<close>: open the index at the path; when that fails, create it.
\<close>

definition createOrOpenIndex ::
  "env \<Rightarrow> Config \<Rightarrow> string \<Rightarrow> IndexMappingImpl \<Rightarrow> history \<Rightarrow> (string + index) \<times> history" where
  "createOrOpenIndex e c indexName mapping h =
     (let indexPath = filepath_Join e (IndexDir (BleveSettings c)) (indexName @ ''.bleve'')
      in case bleve_Open e h indexPath of
           Inr index \<Rightarrow> (Inr index, h @ [Open indexPath])
         | Inl _ \<Rightarrow>
             (let h1 = h @ [Open indexPath]
              in case bleve_New e h1 indexPath mapping of
                   Inl err \<Rightarrow> (Inl err, h1 @ [New indexPath mapping])
                 | Inr index \<Rightarrow> (Inr index, h1 @ [New indexPath mapping])))"

definition IsActive :: "BleveEngine \<Rightarrow> bool" where
  "IsActive b \<longleftrightarrow>
     EnableIndexing (BleveSettings (cfg b)) \<and> IndexDir (BleveSettings (cfg b)) \<noteq> ''''"

text \<open>
  \<open>Start\<close> assigns each handle together with the error of its call, so a failed call
  leaves nil in the handle it was opening.
\<close>

definition Start :: "env \<Rightarrow> BleveEngine \<Rightarrow> history \<Rightarrow> AppError option \<times> BleveEngine \<times> history" where
  "Start e b h =
     (if \<not> EnableIndexing (BleveSettings (cfg b)) \<or> IndexDir (BleveSettings (cfg b)) = ''''
      then (None, b, h)
      else
        (let h = h @ [Warn ''Starting Bleve'']
         in case createOrOpenIndex e (cfg b) ''posts'' getPostIndexMapping h of
              (Inl err, h) \<Rightarrow>
                (Some (NewAppError ''Bleveengine.Start'' ''bleveengine.create_post_index.error''
                         err StatusInternalServerError),
                 b\<lparr>postIndex := None\<rparr>, h)
            | (Inr pix, h) \<Rightarrow>
                (let b = b\<lparr>postIndex := Some pix\<rparr>
                 in case createOrOpenIndex e (cfg b) ''users'' getUserIndexMapping h of
                      (Inl err, h) \<Rightarrow>
                        (Some (NewAppError ''Bleveengine.Start'' ''bleveengine.create_user_index.error''
                                 err StatusInternalServerError),
                         b\<lparr>userIndex := None\<rparr>, h)
                    | (Inr uix, h) \<Rightarrow>
                        (let b = b\<lparr>userIndex := Some uix\<rparr>
                         in case createOrOpenIndex e (cfg b) ''channels'' getChannelIndexMapping h of
                              (Inl err, h) \<Rightarrow>
                                (Some (NewAppError ''Bleveengine.Start''
                                         ''bleveengine.create_channel_index.error''
                                         err StatusInternalServerError),
                                 b\<lparr>channelIndex := None\<rparr>, h)
                            | (Inr cix, h) \<Rightarrow> (None, b\<lparr>channelIndex := Some cix\<rparr>, h)))))"

text \<open>
  \<open>Stop\<close> closes the three indexes when the configuration is active, and stops at the
  first close that fails. A handle that is nil makes the call panic.
\<close>

definition Stop ::
  "env \<Rightarrow> BleveEngine \<Rightarrow> history \<Rightarrow> AppError option outcome \<times> BleveEngine \<times> history" where
  "Stop e b h =
     (let h = h @ [Warn ''Stopping Bleve'']
      in if IsActive b then
           (case postIndex b of
              None \<Rightarrow> (Panic NilDereference, b, h)
            | Some pix \<Rightarrow>
                (case Index_Close e h pix of
                   Some err \<Rightarrow>
                     (Return (Some (NewAppError ''Bleveengine.Stop'' ''bleveengine.stop_post_index.error''
                                      err StatusInternalServerError)),
                      b, h @ [Close pix])
                 | None \<Rightarrow>
                     (let h = h @ [Close pix]
                      in case userIndex b of
                           None \<Rightarrow> (Panic NilDereference, b, h)
                         | Some uix \<Rightarrow>
                             (case Index_Close e h uix of
                                Some err \<Rightarrow>
                                  (Return (Some (NewAppError ''Bleveengine.Stop''
                                                   ''bleveengine.stop_user_index.error''
                                                   err StatusInternalServerError)),
                                   b, h @ [Close uix])
                              | None \<Rightarrow>
                                  (let h = h @ [Close uix]
                                   in case channelIndex b of
                                        None \<Rightarrow> (Panic NilDereference, b, h)
                                      | Some cix \<Rightarrow>
                                          (case Index_Close e h cix of
                                             Some err \<Rightarrow>
                                               (Return (Some (NewAppError ''Bleveengine.Stop''
                                                                ''bleveengine.stop_channel_index.error''
                                                                err StatusInternalServerError)),
                                                b, h @ [Close cix])
                                           | None \<Rightarrow> (Return None, b, h @ [Close cix])))))))
         else (Return None, b, h))"

definition IsIndexingSync :: "BleveEngine \<Rightarrow> bool" where
  "IsIndexingSync b = indexSync b"

definition RefreshIndexes :: "BleveEngine \<Rightarrow> history \<Rightarrow> AppError option \<times> BleveEngine \<times> history" where
  "RefreshIndexes b h = (None, b, h)"

definition TestConfig ::
  "Config \<Rightarrow> BleveEngine \<Rightarrow> history \<Rightarrow> AppError option \<times> BleveEngine \<times> history" where
  "TestConfig c b h = (let h = h @ [Warn ''TestConfig Bleve''] in (None, b, h))"

definition PurgeIndexes :: "BleveEngine \<Rightarrow> history \<Rightarrow> AppError option \<times> BleveEngine \<times> history" where
  "PurgeIndexes b h = (let h = h @ [Warn ''PurgeIndexes Bleve''] in (None, b, h))"

text \<open>The cutoff is a \<open>time.Time\<close>; the method does not read it.\<close>

type_synonym Time = int

definition DataRetentionDeleteIndexes ::
  "Time \<Rightarrow> BleveEngine \<Rightarrow> history \<Rightarrow> AppError option \<times> BleveEngine \<times> history" where
  "DataRetentionDeleteIndexes cutoff b h = (None, b, h)"

text \<open>
  \<open>UpdateConfig\<close> drops what \<open>Stop\<close> and \<open>Start\<close> return; a panic of \<open>Stop\<close> ends the
  call.
\<close>

definition UpdateConfig ::
  "env \<Rightarrow> Config \<Rightarrow> BleveEngine \<Rightarrow> history \<Rightarrow> unit outcome \<times> BleveEngine \<times> history" where
  "UpdateConfig e c b h =
     (if \<not> IsActive b \<and> EnableIndexing (BleveSettings c) \<and> IndexDir (BleveSettings c) \<noteq> ''''
      then
        (case Stop e b h of
           (Panic p, b, h) \<Rightarrow> (Panic p, b, h)
         | (Return _, b, h) \<Rightarrow>
             (let b = b\<lparr>cfg := c\<rparr>
              in case Start e b h of (_, b, h) \<Rightarrow> (Return (), b, h)))
      else (Return (), b\<lparr>cfg := c\<rparr>, h))"

subsection \<open>SearchPosts\<close>

text \<open>
  The block under \<open>if i == 0\<close> of the loop of \<open>SearchPosts\<close> (lines 198 to 285): it
  appends to \<open>filters\<close> and \<open>notFilters\<close>.
\<close>

definition SearchPosts_first ::
  "env \<Rightarrow> SearchParams \<Rightarrow> query list \<times> query list \<Rightarrow> query list \<times> query list" where
  "SearchPosts_first e params acc =
     (case acc of (filters, notFilters) \<Rightarrow>
        (let filters =
               (if length (InChannels params) > 0 then
                  (let inChannels =
                         map (\<lambda>channelId. SetField ''ChannelId'' (NewTermQuery channelId))
                           (InChannels params)
                   in filters @ [NewDisjunctionQuery inChannels])
                else filters);
             notFilters =
               (if length (ExcludedChannels params) > 0 then
                  (let excludedChannels =
                         map (\<lambda>channelId. SetField ''ChannelId'' (NewTermQuery channelId))
                           (ExcludedChannels params)
                   in notFilters @ [NewDisjunctionQuery excludedChannels])
                else notFilters);
             filters =
               (if length (FromUsers params) > 0 then
                  (let fromUsers =
                         map (\<lambda>userId. SetField ''UserId'' (NewTermQuery userId))
                           (FromUsers params)
                   in filters @ [NewDisjunctionQuery fromUsers])
                else filters);
             notFilters =
               (if length (ExcludedUsers params) > 0 then
                  (let excludedUsers =
                         map (\<lambda>userId. SetField ''UserId'' (NewTermQuery userId))
                           (ExcludedUsers params)
                   in notFilters @ [NewDisjunctionQuery excludedUsers])
                else notFilters)
         in if OnDate params \<noteq> '''' then
              (case GetOnDateMillis e params of (beforeMillis, afterMillis) \<Rightarrow>
                 (let beforeFloat64 = float64_of e beforeMillis;
                      afterFloat64 = float64_of e afterMillis;
                      onDateQ = SetField ''CreateAt''
                                  (NewNumericRangeQuery (Some beforeFloat64) (Some afterFloat64))
                  in (filters @ [onDateQ], notFilters)))
            else
              (let filters =
                     (if AfterDate params \<noteq> '''' \<or> BeforeDate params \<noteq> '''' then
                        (let mn = (if AfterDate params \<noteq> ''''
                                   then Some (float64_of e (GetAfterDateMillis e params))
                                   else None);
                             mx = (if BeforeDate params \<noteq> ''''
                                   then Some (float64_of e (GetBeforeDateMillis e params))
                                   else None);
                             dateQ = SetField ''CreateAt'' (NewNumericRangeQuery mn mx)
                         in filters @ [dateQ])
                      else filters);
                   notFilters =
                     (if ExcludedAfterDate params \<noteq> '''' then
                        (let minf = float64_of e (GetExcludedAfterDateMillis e params);
                             dateQ = SetField ''CreateAt'' (NewNumericRangeQuery (Some minf) None)
                         in notFilters @ [dateQ])
                      else notFilters);
                   notFilters =
                     (if ExcludedBeforeDate params \<noteq> '''' then
                        (let maxf = float64_of e (GetExcludedBeforeDateMillis e params);
                             dateQ = SetField ''CreateAt'' (NewNumericRangeQuery None (Some maxf))
                         in notFilters @ [dateQ])
                      else notFilters);
                   notFilters =
                     (if ExcludedDate params \<noteq> '''' then
                        (case GetExcludedDateMillis e params of (beforeMillis, afterMillis) \<Rightarrow>
                           (let beforef = float64_of e beforeMillis;
                                afterf = float64_of e afterMillis;
                                onDateQ = SetField ''CreateAt''
                                            (NewNumericRangeQuery (Some beforef) (Some afterf))
                            in notFilters @ [onDateQ]))
                      else notFilters)
               in (filters, notFilters))))"

text \<open>
  One iteration of \<open>for i, params := range searchParams\<close> (lines 193 to 291), on the
  three slices the loop appends to.
\<close>

definition SearchPosts_iteration ::
  "env \<Rightarrow> nat \<Rightarrow> SearchParams \<Rightarrow> query list \<times> query list \<times> query list
     \<Rightarrow> query list \<times> query list \<times> query list" where
  "SearchPosts_iteration e i params acc =
     (case acc of (termQueries, filters, notFilters) \<Rightarrow>
        (case (if i = 0 then SearchPosts_first e params (filters, notFilters)
               else (filters, notFilters)) of
           (filters, notFilters) \<Rightarrow>
             (let messageQ = SetField ''Message'' (NewMatchQuery (Terms params))
              in (termQueries @ [messageQ], filters, notFilters))))"

fun SearchPosts_loop ::
  "env \<Rightarrow> nat \<Rightarrow> SearchParams list \<Rightarrow> query list \<times> query list \<times> query list
     \<Rightarrow> query list \<times> query list \<times> query list" where
  "SearchPosts_loop e i [] acc = acc"
| "SearchPosts_loop e i (params # rest) acc =
     SearchPosts_loop e (Suc i) rest (SearchPosts_iteration e i params acc)"

text \<open>
  The query \<open>SearchPosts\<close> builds (lines 182 to 310). \<open>searchParams[0]\<close> of an empty
  slice is an index out of range.
\<close>

definition SearchPosts_query :: "env \<Rightarrow> ChannelList \<Rightarrow> SearchParams list \<Rightarrow> query outcome" where
  "SearchPosts_query e channels searchParams =
     (let channelQueries = map (\<lambda>channel. SetField ''ChannelId'' (NewTermQuery (Id' channel))) channels;
          channelDisjunctionQ = NewDisjunctionQuery channelQueries
      in case SearchPosts_loop e 0 searchParams ([], [], []) of
           (termQueries, filters, notFilters) \<Rightarrow>
             (case searchParams of
                [] \<Rightarrow> Panic IndexOutOfRange
              | first # _ \<Rightarrow>
                  (let allTermsQ = (if OrTerms first then NewDisjunctionQuery termQueries
                                    else NewConjunctionQuery termQueries);
                       query = NewBooleanQuery;
                       query = AddMust [channelDisjunctionQ, allTermsQ] query;
                       query = (if length filters > 0
                                then AddMust [NewConjunctionQuery filters] query else query);
                       query = (if length notFilters > 0
                                then AddMustNot notFilters query else query)
                   in Return query)))"

type_synonym PostSearchMatches = "string \<rightharpoonup> string list"

definition SearchPosts ::
  "env \<Rightarrow> ChannelList \<Rightarrow> SearchParams list \<Rightarrow> int \<Rightarrow> int \<Rightarrow> BleveEngine \<Rightarrow> history
     \<Rightarrow> (AppError + string list \<times> PostSearchMatches) outcome \<times> BleveEngine \<times> history" where
  "SearchPosts e channels searchParams page perPage b h =
     (case SearchPosts_query e channels searchParams of
        Panic p \<Rightarrow> (Panic p, b, h)
      | Return query \<Rightarrow>
          (let search = NewSearchRequest query
           in case postIndex b of
                None \<Rightarrow> (Panic NilDereference, b, h)
              | Some pix \<Rightarrow>
                  (case Index_Search e h pix search of
                     Inl err \<Rightarrow>
                       (Return (Inl (NewAppError ''Bleveengine.SearchPosts''
                                       ''bleveengine.search_posts.error''
                                       err StatusInternalServerError)),
                        b, h @ [Search pix search])
                   | Inr results \<Rightarrow>
                       (let postIds = map ID (Hits results);
                            matches = Map.empty
                        in (Return (Inr (postIds, matches)), b, h @ [Search pix search])))))"

subsection \<open>User search\<close>

text \<open>\<open>len\<close> and \<open>range\<close> read a nil slice as the empty one.\<close>

fun elems :: "'a list option \<Rightarrow> 'a list" where
  "elems None = []"
| "elems (Some xs) = xs"

text \<open>The prefix query on the suggestion field that the options select.\<close>

definition termPrefixQ :: "env \<Rightarrow> string \<Rightarrow> UserSearchOptions \<Rightarrow> query" where
  "termPrefixQ e term options =
     (let termQ = NewPrefixQuery (strings_ToLower e term)
      in if AllowFullNames options then SetField ''SuggestionsWithFullname'' termQ
         else SetField ''SuggestionsWithoutFullname'' termQ)"

text \<open>The first query of \<open>SearchUsersInChannel\<close>, for the users of the channel (lines 388 to 403).\<close>

definition SearchUsersInChannel_uchanQuery ::
  "env \<Rightarrow> string \<Rightarrow> string \<Rightarrow> UserSearchOptions \<Rightarrow> query" where
  "SearchUsersInChannel_uchanQuery e channelId term options =
     (let queries = [];
          queries = (if term \<noteq> '''' then queries @ [termPrefixQ e term options] else queries);
          channelIdQ = SetField ''ChannelsIds'' (NewTermQuery channelId);
          queries = queries @ [channelIdQ]
      in NewConjunctionQuery queries)"

text \<open>
  The second query of \<open>SearchUsersInChannel\<close>, for the users outside the channel
  (lines 410 to 437).
\<close>

definition SearchUsersInChannel_nuchanQuery ::
  "env \<Rightarrow> string \<Rightarrow> string \<Rightarrow> string list option \<Rightarrow> string \<Rightarrow> UserSearchOptions \<Rightarrow> query" where
  "SearchUsersInChannel_nuchanQuery e teamId channelId restrictedToChannels term options =
     (let boolQ = NewBooleanQuery;
          boolQ = (if term \<noteq> '''' then AddMust [termPrefixQ e term options] boolQ else boolQ);
          teamIdQ = SetField ''TeamsIds'' (NewTermQuery teamId);
          boolQ = AddMust [teamIdQ] boolQ;
          outsideChannelIdQ = SetField ''ChannelsIds'' (NewTermQuery channelId);
          boolQ = AddMustNot [outsideChannelIdQ] boolQ
      in if length (elems restrictedToChannels) > 0 then
           (let restrictedChannelsQ =
                  foldl (\<lambda>restrictedChannelsQ channelId.
                           (let restrictedChannelQ = NewTermQuery channelId
                            in AddQuery restrictedChannelQ restrictedChannelsQ))
                    (NewDisjunctionQuery []) (elems restrictedToChannels)
            in AddMust [restrictedChannelsQ] boolQ)
         else boolQ)"

definition SearchUsersInChannel ::
  "env \<Rightarrow> string \<Rightarrow> string \<Rightarrow> string list option \<Rightarrow> string \<Rightarrow> UserSearchOptions
     \<Rightarrow> BleveEngine \<Rightarrow> history
     \<Rightarrow> (AppError + string list \<times> string list) outcome \<times> BleveEngine \<times> history" where
  "SearchUsersInChannel e teamId channelId restrictedToChannels term options b h =
     (if restrictedToChannels \<noteq> None \<and> length (elems restrictedToChannels) = 0
      then (Return (Inr ([], [])), b, h)
      else
        (let query = SearchUsersInChannel_uchanQuery e channelId term options
         in case userIndex b of
              None \<Rightarrow> (Panic NilDereference, b, h)
            | Some uix \<Rightarrow>
                (case Index_Search e h uix (NewSearchRequest query) of
                   Inl err \<Rightarrow>
                     (Return (Inl (NewAppError ''Bleveengine.SearchUsersInChannel''
                                     ''bleveengine.search_users_in_channel.uchan.error''
                                     err StatusInternalServerError)),
                      b, h @ [Search uix (NewSearchRequest query)])
                 | Inr uchan \<Rightarrow>
                     (let h = h @ [Search uix (NewSearchRequest query)];
                          boolQ = SearchUsersInChannel_nuchanQuery e teamId channelId
                                    restrictedToChannels term options
                      in case Index_Search e h uix (NewSearchRequest boolQ) of
                           Inl err \<Rightarrow>
                             (Return (Inl (NewAppError ''Bleveengine.SearchUsersInChannel''
                                             ''bleveengine.search_users_in_channel.nuchan.error''
                                             err StatusInternalServerError)),
                              b, h @ [Search uix (NewSearchRequest boolQ)])
                         | Inr nuchan \<Rightarrow>
                             (let uchanIds = map ID (Hits uchan);
                                  nuchanIds = map ID (Hits nuchan)
                              in (Return (Inr (uchanIds, nuchanIds)), b,
                                  h @ [Search uix (NewSearchRequest boolQ)]))))))"

text \<open>The query of \<open>SearchUsersInTeam\<close> (lines 462 to 498).\<close>

definition SearchUsersInTeam_rootQ ::
  "env \<Rightarrow> string \<Rightarrow> string list option \<Rightarrow> string \<Rightarrow> UserSearchOptions \<Rightarrow> query" where
  "SearchUsersInTeam_rootQ e teamId restrictedToChannels term options =
     (if term = '''' \<and> teamId = '''' \<and> restrictedToChannels = None then NewMatchAllQuery
      else
        (let boolQ = NewBooleanQuery;
             boolQ = (if term \<noteq> '''' then AddMust [termPrefixQ e term options] boolQ else boolQ)
         in if length (elems restrictedToChannels) > 0 then
              (let restrictedChannelsQ =
                     map (\<lambda>channelId. SetField ''ChannelsIds'' (NewTermQuery channelId))
                       (elems restrictedToChannels)
               in AddMust [NewDisjunctionQuery restrictedChannelsQ] boolQ)
            else
              (if teamId \<noteq> '''' then
                 (let teamIdQ = SetField ''TeamsIds'' (NewTermQuery teamId)
                  in AddMust [teamIdQ] boolQ)
               else boolQ)))"

definition SearchUsersInTeam ::
  "env \<Rightarrow> string \<Rightarrow> string list option \<Rightarrow> string \<Rightarrow> UserSearchOptions
     \<Rightarrow> BleveEngine \<Rightarrow> history
     \<Rightarrow> (AppError + string list) outcome \<times> BleveEngine \<times> history" where
  "SearchUsersInTeam e teamId restrictedToChannels term options b h =
     (if restrictedToChannels \<noteq> None \<and> length (elems restrictedToChannels) = 0
      then (Return (Inr []), b, h)
      else
        (let rootQ = SearchUsersInTeam_rootQ e teamId restrictedToChannels term options;
             search = NewSearchRequest rootQ
         in case userIndex b of
              None \<Rightarrow> (Panic NilDereference, b, h)
            | Some uix \<Rightarrow>
                (case Index_Search e h uix search of
                   Inl err \<Rightarrow>
                     (Return (Inl (NewAppError ''Bleveengine.SearchUsersInTeam''
                                     ''bleveengine.search_users_in_team.error''
                                     err StatusInternalServerError)),
                      b, h @ [Search uix search])
                 | Inr results \<Rightarrow>
                     (let usersIds = map ID (Hits results)
                      in (Return (Inr usersIds), b, h @ [Search uix search])))))"

subsection \<open>Reading a query tree\<close>

text \<open>
  The numeric range queries of a tree, from left to right. The only numeric field of the
  post index is \<open>CreateAt\<close>, so these are the date clauses of a post query.
\<close>

fun dateClauses :: "query \<Rightarrow> query list" where
  "dateClauses (NumericRangeQuery mn mx f) = [NumericRangeQuery mn mx f]"
| "dateClauses (ConjunctionQuery qs) = concat (map dateClauses qs)"
| "dateClauses (DisjunctionQuery qs) = concat (map dateClauses qs)"
| "dateClauses (BooleanQuery must should mustNot) =
     concat (map dateClauses must) @ concat (map dateClauses should)
     @ concat (map dateClauses mustNot)"
| "dateClauses q = []"

text \<open>The fields the leaves of a tree restrict on, from left to right.\<close>

fun queryFields :: "query \<Rightarrow> string list" where
  "queryFields (TermQuery t f) = [f]"
| "queryFields (MatchQuery m f) = [f]"
| "queryFields (PrefixQuery p f) = [f]"
| "queryFields (NumericRangeQuery mn mx f) = [f]"
| "queryFields (ConjunctionQuery qs) = concat (map queryFields qs)"
| "queryFields (DisjunctionQuery qs) = concat (map queryFields qs)"
| "queryFields (BooleanQuery must should mustNot) =
     concat (map queryFields must) @ concat (map queryFields should)
     @ concat (map queryFields mustNot)"
| "queryFields MatchAllQuery = []"

text \<open>Names for the clauses the theorems speak of.\<close>

definition messageQueries :: "SearchParams list \<Rightarrow> query list" where
  "messageQueries ps = map (\<lambda>params. MatchQuery (Terms params) ''Message'') ps"

definition channelDisjunction :: "ChannelList \<Rightarrow> query" where
  "channelDisjunction channels =
     DisjunctionQuery (map (\<lambda>channel. TermQuery (Id' channel) ''ChannelId'') channels)"

definition termDisjunction :: "string \<Rightarrow> string list \<Rightarrow> query list" where
  "termDisjunction f xs =
     (if xs = [] then [] else [DisjunctionQuery (map (\<lambda>x. TermQuery x f) xs)])"

definition onDateQuery :: "env \<Rightarrow> SearchParams \<Rightarrow> query" where
  "onDateQuery e params =
     NumericRangeQuery (Some (float64_of e (fst (GetOnDateMillis e params))))
       (Some (float64_of e (snd (GetOnDateMillis e params)))) ''CreateAt''"

definition prefixClause :: "env \<Rightarrow> string \<Rightarrow> UserSearchOptions \<Rightarrow> query list" where
  "prefixClause e term options =
     (if term = '''' then []
      else [PrefixQuery (strings_ToLower e term)
              (if AllowFullNames options then ''SuggestionsWithFullname''
               else ''SuggestionsWithoutFullname'')])"

subsection \<open>Sample data for the concrete instances\<close>

text \<open>
  An environment with an empty index directory: every open fails, every creation
  succeeds with a fresh handle, every search returns two hits. The day of the sample
  parameters is 2024-01-05 in UTC.
\<close>

definition sampleEnv :: env where
  "sampleEnv =
     \<lparr>bleve_Open = (\<lambda>h path. Inl ''cannot open index, path does not exist''),
      bleve_New = (\<lambda>h path m. Inr (length h)),
      Index_Close = (\<lambda>h ix. None),
      Index_Search = (\<lambda>h ix req. Inr (SearchResult [DocumentMatch ''id1'', DocumentMatch ''id2''])),
      filepath_Join = (\<lambda>dir name. dir @ ''/'' @ name),
      strings_ToLower = (\<lambda>s. s),
      float64_of = real_of_int,
      GetOnDateMillis = (\<lambda>params. (1704412800000, 1704499199999)),
      GetAfterDateMillis = (\<lambda>params. 1704153599999),
      GetBeforeDateMillis = (\<lambda>params. 1706745600000),
      GetExcludedAfterDateMillis = (\<lambda>params. 1705795199999),
      GetExcludedBeforeDateMillis = (\<lambda>params. 1701388800000),
      GetExcludedDateMillis = (\<lambda>params. (1704844800000, 1704931199999))\<rparr>"

definition sampleParams :: SearchParams where
  "sampleParams =
     \<lparr>Terms = ''deploy'', OrTerms = False,
      InChannels = [''c1''], ExcludedChannels = [''c2''],
      FromUsers = [''u1''], ExcludedUsers = [''u2''],
      OnDate = ''2024-01-05'', AfterDate = ''2024-01-01'', BeforeDate = ''2024-02-01'',
      ExcludedDate = ''2024-01-10'', ExcludedAfterDate = ''2024-01-20'',
      ExcludedBeforeDate = ''2023-12-01''\<rparr>"

definition plainParams :: "string \<Rightarrow> SearchParams" where
  "plainParams t =
     \<lparr>Terms = t, OrTerms = False,
      InChannels = [], ExcludedChannels = [], FromUsers = [], ExcludedUsers = [],
      OnDate = '''', AfterDate = '''', BeforeDate = '''',
      ExcludedDate = '''', ExcludedAfterDate = '''', ExcludedBeforeDate = ''''\<rparr>"

definition sampleChannels :: ChannelList where
  "sampleChannels = [\<lparr>Id' = ''c1''\<rparr>, \<lparr>Id' = ''c3''\<rparr>]"

definition sampleConfig :: "bool \<Rightarrow> string \<Rightarrow> Config" where
  "sampleConfig enabled dir =
     \<lparr>BleveSettings = \<lparr>EnableIndexing = enabled, IndexDir = dir,
                        EnableSearching = True, EnableAutocomplete = True\<rparr>\<rparr>"

definition startedEngine :: BleveEngine where
  "startedEngine =
     \<lparr>postIndex = Some 3, userIndex = Some 6, channelIndex = Some 9,
      cfg = sampleConfig True ''/data'', jobServer = 0, indexSync = False\<rparr>"

section \<open>Properties\<close>

subsection \<open>The shape of the post query\<close>

lemma messageQueries_Terms:
  "messageQueries ps = map (\<lambda>t. MatchQuery t ''Message'') (map Terms ps)"
  by (simp add: messageQueries_def comp_def)

text \<open>
  After the first iteration the loop only appends one match query per element.
\<close>

lemma SearchPosts_loop_Suc:
  "SearchPosts_loop e (Suc i) ps (tq, fs, nfs) = (tq @ messageQueries ps, fs, nfs)"
  by (induction ps arbitrary: i tq)
     (simp_all add: messageQueries_def SearchPosts_iteration_def NewMatchQuery_def)

lemma SearchPosts_loop_Cons:
  "SearchPosts_loop e 0 (p # ps) ([], [], []) =
     (messageQueries (p # ps), SearchPosts_first e p ([], []))"
  by (cases "SearchPosts_first e p ([], [])")
     (simp add: SearchPosts_loop_Suc SearchPosts_iteration_def messageQueries_def
        NewMatchQuery_def)

lemma SearchPosts_query_Nil: "SearchPosts_query e channels [] = Panic IndexOutOfRange"
  by (simp add: SearchPosts_query_def)

lemma SearchPosts_query_Cons:
  "SearchPosts_query e channels (p # ps) =
     Return (BooleanQuery
       ([channelDisjunction channels,
         (if OrTerms p then DisjunctionQuery (messageQueries (p # ps))
          else ConjunctionQuery (messageQueries (p # ps)))]
        @ (if fst (SearchPosts_first e p ([], [])) = [] then []
           else [ConjunctionQuery (fst (SearchPosts_first e p ([], [])))]))
       []
       (snd (SearchPosts_first e p ([], []))))"
  by (cases "SearchPosts_first e p ([], [])")
     (simp add: SearchPosts_query_def SearchPosts_loop_Cons channelDisjunction_def
        NewDisjunctionQuery_def NewConjunctionQuery_def NewBooleanQuery_def NewTermQuery_def
        Let_def comp_def del: SearchPosts_loop.simps)

text \<open>
  \<open>SearchPosts\<close> hands the query it built to the post index, in one call, when the
  engine has a post index.
\<close>

lemma SearchPosts_submits_query:
  assumes "SearchPosts_query e channels searchParams = Return q"
    and "postIndex b = Some pix"
  shows "snd (snd (SearchPosts e channels searchParams page perPage b h)) =
           h @ [Search pix (NewSearchRequest q)]"
  using assms by (simp add: SearchPosts_def Let_def split: sum.splits)

lemma dateClauses_termDisjunction: "concat (map dateClauses (termDisjunction f xs)) = []"
  by (simp add: termDisjunction_def comp_def)

lemma SearchPosts_first_OnDate:
  assumes "OnDate p \<noteq> ''''"
  shows "SearchPosts_first e p ([], []) =
     (termDisjunction ''ChannelId'' (InChannels p) @ termDisjunction ''UserId'' (FromUsers p)
        @ [onDateQuery e p],
      termDisjunction ''ChannelId'' (ExcludedChannels p)
        @ termDisjunction ''UserId'' (ExcludedUsers p))"
  using assms
  by (simp add: SearchPosts_first_def termDisjunction_def onDateQuery_def Let_def comp_def
        NewDisjunctionQuery_def NewTermQuery_def NewNumericRangeQuery_def split: prod.splits)

text \<open>
  Claim C1. The filter clauses and the must-not clauses of the post query come from the
  first element of the parameter list alone. The first two MUST clauses are the channel
  visibility disjunction and the terms query; the filter clause, when there is one,
  follows them. For two non-empty lists with the same first element the query is built
  for both, the clauses after the first two and the MUST-NOT clauses are the same, and
  when the lists also agree on the terms of every element the two queries are equal.
\<close>

theorem SearchPosts_filters_from_first:
  assumes "P \<noteq> []" and "P' \<noteq> []" and "hd P = hd P'"
  shows "\<exists>q q'. SearchPosts_query e channels P = Return q
           \<and> SearchPosts_query e channels P' = Return q'
           \<and> drop 2 (Must q) = drop 2 (Must q')
           \<and> MustNot q = MustNot q'
           \<and> (map Terms P = map Terms P' \<longrightarrow> q = q')"
proof -
  from assms(1) obtain p ps where P: "P = p # ps"
    by (cases P) auto
  from assms(2) obtain p' ps' where P': "P' = p' # ps'"
    by (cases P') auto
  from assms(3) P P' have "p' = p" by simp
  with P P' show ?thesis
    by (auto simp add: SearchPosts_query_Cons messageQueries_Terms)
qed

theorem SearchPosts_filters_from_first_witness:
  "[sampleParams, plainParams ''release''] \<noteq> []
   \<and> [sampleParams, (plainParams ''release'')\<lparr>InChannels := [''c9''], ExcludedUsers := [''u9''],
         OnDate := ''2023-03-03'', ExcludedAfterDate := ''2023-03-01''\<rparr>] \<noteq> []
   \<and> SearchPosts_query sampleEnv sampleChannels [sampleParams, plainParams ''release''] =
       SearchPosts_query sampleEnv sampleChannels
         [sampleParams, (plainParams ''release'')\<lparr>InChannels := [''c9''], ExcludedUsers := [''u9''],
            OnDate := ''2023-03-03'', ExcludedAfterDate := ''2023-03-01''\<rparr>]"
  using SearchPosts_filters_from_first
    [of "[sampleParams, plainParams ''release'']"
        "[sampleParams, (plainParams ''release'')\<lparr>InChannels := [''c9''], ExcludedUsers := [''u9''],
            OnDate := ''2023-03-03'', ExcludedAfterDate := ''2023-03-01''\<rparr>]"
        sampleEnv sampleChannels]
  by (auto simp add: plainParams_def)

text \<open>
  Claim C2. When \<open>OnDate\<close> of the first element is set, the post query has three MUST
  clauses, the third is the conjunction of the filters, the last filter is the closed
  range on \<open>CreateAt\<close> between the two bounds of \<open>GetOnDateMillis\<close>, and this range is
  the only date clause of the whole query: the other five date fields add nothing,
  whatever they hold.
\<close>

theorem SearchPosts_OnDate_only:
  assumes "searchParams \<noteq> []" and "OnDate (hd searchParams) \<noteq> ''''"
  shows "\<exists>channelQ termsQ fs mustNot.
     SearchPosts_query e channels searchParams =
       Return (BooleanQuery [channelQ, termsQ, ConjunctionQuery fs] [] mustNot)
     \<and> last fs = onDateQuery e (hd searchParams)
     \<and> dateClauses (BooleanQuery [channelQ, termsQ, ConjunctionQuery fs] [] mustNot) =
         [onDateQuery e (hd searchParams)]"
proof -
  from assms(1) obtain p ps where P: "searchParams = p # ps"
    by (cases searchParams) auto
  have mq: "concat (map dateClauses (messageQueries (p # ps))) = []"
    by (simp add: messageQueries_def comp_def)
  have cq: "dateClauses (channelDisjunction channels) = []"
    by (simp add: channelDisjunction_def comp_def)
  from assms(2) P have "OnDate p \<noteq> ''''" by simp
  with P mq cq show ?thesis
    by (simp add: SearchPosts_query_Cons SearchPosts_first_OnDate dateClauses_termDisjunction
          onDateQuery_def)
qed

theorem SearchPosts_OnDate_only_witness:
  "[sampleParams] \<noteq> [] \<and> OnDate (hd [sampleParams]) \<noteq> ''''
   \<and> AfterDate sampleParams \<noteq> '''' \<and> BeforeDate sampleParams \<noteq> ''''
   \<and> ExcludedDate sampleParams \<noteq> '''' \<and> ExcludedAfterDate sampleParams \<noteq> ''''
   \<and> ExcludedBeforeDate sampleParams \<noteq> ''''
   \<and> (\<exists>channelQ termsQ fs mustNot.
        SearchPosts_query sampleEnv sampleChannels [sampleParams] =
          Return (BooleanQuery [channelQ, termsQ, ConjunctionQuery fs] [] mustNot)
        \<and> last fs = NumericRangeQuery (Some 1704412800000) (Some 1704499199999) ''CreateAt''
        \<and> dateClauses (BooleanQuery [channelQ, termsQ, ConjunctionQuery fs] [] mustNot) =
            [NumericRangeQuery (Some 1704412800000) (Some 1704499199999) ''CreateAt''])"
  using SearchPosts_OnDate_only [of "[sampleParams]" sampleEnv sampleChannels]
  by (simp add: sampleParams_def sampleEnv_def onDateQuery_def)

text \<open>
  Claim C3. For every list of visible channels and every non-empty parameter list, the
  post query is a boolean query whose first MUST clause is the disjunction of the term
  queries on \<open>ChannelId\<close> for the identifiers of the visible channels, one per channel and
  in their order, whatever channel filters the parameters hold.
\<close>

theorem SearchPosts_channel_visibility:
  assumes "searchParams \<noteq> []"
  shows "\<exists>rest mustNot.
     SearchPosts_query e channels searchParams =
       Return (BooleanQuery
         (DisjunctionQuery (map (\<lambda>channel. TermQuery (Id' channel) ''ChannelId'') channels) # rest)
         [] mustNot)"
proof -
  from assms obtain p ps where "searchParams = p # ps"
    by (cases searchParams) auto
  then show ?thesis
    by (simp add: SearchPosts_query_Cons channelDisjunction_def)
qed

theorem SearchPosts_channel_visibility_witness:
  "[sampleParams] \<noteq> []
   \<and> InChannels sampleParams = [''c1''] \<and> ExcludedChannels sampleParams = [''c2'']
   \<and> (\<exists>rest mustNot.
        SearchPosts_query sampleEnv sampleChannels [sampleParams] =
          Return (BooleanQuery
            (DisjunctionQuery [TermQuery ''c1'' ''ChannelId'', TermQuery ''c3'' ''ChannelId''] # rest)
            [] mustNot))"
  using SearchPosts_channel_visibility [of "[sampleParams]" sampleEnv sampleChannels]
  by (simp add: sampleParams_def sampleChannels_def)

text \<open>
  Claim C4. For every non-empty parameter list the second MUST clause of the post query
  combines one match query on \<open>Message\<close> per element of the list, the first included, in
  their order: in a disjunction when \<open>OrTerms\<close> of the first element is true, in a
  conjunction when it is false.
\<close>

theorem SearchPosts_terms_combination:
  assumes "searchParams \<noteq> []"
  shows "\<exists>channelQ rest mustNot.
     SearchPosts_query e channels searchParams =
       Return (BooleanQuery
         (channelQ
          # (if OrTerms (hd searchParams)
             then DisjunctionQuery
                    (map (\<lambda>params. MatchQuery (Terms params) ''Message'') searchParams)
             else ConjunctionQuery
                    (map (\<lambda>params. MatchQuery (Terms params) ''Message'') searchParams))
          # rest)
         [] mustNot)"
proof -
  from assms obtain p ps where "searchParams = p # ps"
    by (cases searchParams) auto
  then show ?thesis
    by (simp add: SearchPosts_query_Cons messageQueries_def)
qed

theorem SearchPosts_terms_combination_witness:
  "[plainParams ''deploy'', plainParams ''release''] \<noteq> []
   \<and> [(plainParams ''deploy'')\<lparr>OrTerms := True\<rparr>, plainParams ''release''] \<noteq> []
   \<and> (\<exists>channelQ rest mustNot.
        SearchPosts_query sampleEnv sampleChannels [plainParams ''deploy'', plainParams ''release''] =
          Return (BooleanQuery
            (channelQ
             # ConjunctionQuery [MatchQuery ''deploy'' ''Message'', MatchQuery ''release'' ''Message'']
             # rest) [] mustNot))
   \<and> (\<exists>channelQ rest mustNot.
        SearchPosts_query sampleEnv sampleChannels
          [(plainParams ''deploy'')\<lparr>OrTerms := True\<rparr>, plainParams ''release''] =
          Return (BooleanQuery
            (channelQ
             # DisjunctionQuery [MatchQuery ''deploy'' ''Message'', MatchQuery ''release'' ''Message'']
             # rest) [] mustNot))"
  using SearchPosts_terms_combination
      [of "[plainParams ''deploy'', plainParams ''release'']" sampleEnv sampleChannels]
    SearchPosts_terms_combination
      [of "[(plainParams ''deploy'')\<lparr>OrTerms := True\<rparr>, plainParams ''release'']"
          sampleEnv sampleChannels]
  by (simp add: plainParams_def)

text \<open>
  Claim C9. Whenever \<open>SearchPosts\<close> returns without an error, the map of matches it
  returns is empty, and the identifiers it returns are those of the hits of the index, in
  their order, however many there are.
\<close>

theorem SearchPosts_matches_empty:
  assumes "fst (SearchPosts e channels searchParams page perPage b h) =
             Return (Inr (postIds, matches))"
  shows "matches = Map.empty
     \<and> (\<exists>pix query results.
           postIndex b = Some pix
         \<and> SearchPosts_query e channels searchParams = Return query
         \<and> Index_Search e h pix (NewSearchRequest query) = Inr results
         \<and> postIds = map ID (Hits results))"
  using assms
  by (auto simp add: SearchPosts_def Let_def split: outcome.splits option.splits sum.splits)

theorem SearchPosts_matches_empty_witness:
  "fst (SearchPosts sampleEnv sampleChannels [plainParams ''deploy''] 0 10 startedEngine []) =
     Return (Inr ([''id1'', ''id2''], Map.empty))
   \<and> (\<exists>pix query results.
         postIndex startedEngine = Some pix
       \<and> SearchPosts_query sampleEnv sampleChannels [plainParams ''deploy''] = Return query
       \<and> Index_Search sampleEnv [] pix (NewSearchRequest query) = Inr results
       \<and> [''id1'', ''id2''] = map ID (Hits results))"
proof -
  have run: "fst (SearchPosts sampleEnv sampleChannels [plainParams ''deploy''] 0 10
                startedEngine []) =
             Return (Inr ([''id1'', ''id2''], Map.empty))"
    by (simp add: SearchPosts_def SearchPosts_query_Cons startedEngine_def sampleEnv_def)
  from SearchPosts_matches_empty [OF run] run show ?thesis
    by simp
qed

subsection \<open>User search\<close>

lemma foldl_AddQuery:
  "foldl (\<lambda>q channelId. AddQuery (TermQuery channelId '''') q) (DisjunctionQuery qs) xs =
     DisjunctionQuery (qs @ map (\<lambda>channelId. TermQuery channelId '''') xs)"
  by (induction xs arbitrary: qs) simp_all

text \<open>
  The second query of \<open>SearchUsersInChannel\<close> under a restriction list: the disjuncts for
  the restricted channels are term queries with no field set, while the clause that
  excludes the channel itself is on \<open>ChannelsIds\<close>.
\<close>

lemma SearchUsersInChannel_nuchanQuery_restricted:
  "SearchUsersInChannel_nuchanQuery e teamId channelId (Some (c # cs)) term options =
     BooleanQuery
       (prefixClause e term options
        @ [TermQuery teamId ''TeamsIds'',
           DisjunctionQuery (map (\<lambda>channelId. TermQuery channelId '''') (c # cs))])
       [] [TermQuery channelId ''ChannelsIds'']"
  by (simp add: SearchUsersInChannel_nuchanQuery_def prefixClause_def termPrefixQ_def Let_def
        NewBooleanQuery_def NewPrefixQuery_def NewTermQuery_def NewDisjunctionQuery_def
        foldl_AddQuery)

text \<open>
  Claim C5. Under a non-empty restriction list the MUST clause for it should be a
  disjunction of term queries on \<open>ChannelsIds\<close>, one per restricted channel, in both user
  searches. \<open>SearchUsersInTeam\<close> builds that (see the theorem of claim C7). In
  \<open>SearchUsersInChannel\<close> the disjuncts have no field: for the team \<open>team1\<close>, the channel
  \<open>chan1\<close>, the restriction list \<open>chan2\<close>, \<open>chan3\<close> and no term, the second search that
  reaches the user index carries term queries for \<open>chan2\<close> and \<open>chan3\<close> whose field is
  empty, and \<open>ChannelsIds\<close> is not among the fields of that disjunction.
\<close>

theorem SearchUsersInChannel_restriction_unfielded:
  "SearchUsersInChannel sampleEnv ''team1'' ''chan1'' (Some [''chan2'', ''chan3'']) ''''
     \<lparr>AllowFullNames = False\<rparr> startedEngine [] =
     (Return (Inr ([''id1'', ''id2''], [''id1'', ''id2''])), startedEngine,
      [Search 6 (NewSearchRequest (ConjunctionQuery [TermQuery ''chan1'' ''ChannelsIds''])),
       Search 6 (NewSearchRequest
         (BooleanQuery
            [TermQuery ''team1'' ''TeamsIds'',
             DisjunctionQuery [TermQuery ''chan2'' '''', TermQuery ''chan3'' '''']]
            [] [TermQuery ''chan1'' ''ChannelsIds'']))])
   \<and> ''ChannelsIds'' \<notin> set (queryFields
         (DisjunctionQuery [TermQuery ''chan2'' '''', TermQuery ''chan3'' '''']))"
  by (simp add: SearchUsersInChannel_def SearchUsersInChannel_nuchanQuery_restricted
        SearchUsersInChannel_uchanQuery_def prefixClause_def NewConjunctionQuery_def
        NewTermQuery_def startedEngine_def sampleEnv_def)

text \<open>
  Claim C6. With a restriction list that is present and empty, both user searches return
  at once: the empty lists, no error, the engine as it was, and the history as it was, so
  no search of the index was called.
\<close>

theorem user_search_empty_restriction:
  "SearchUsersInChannel e teamId channelId (Some []) term options b h =
     (Return (Inr ([], [])), b, h)
   \<and> SearchUsersInTeam e teamId (Some []) term options b h = (Return (Inr []), b, h)"
  by (simp add: SearchUsersInChannel_def SearchUsersInTeam_def)

text \<open>
  \<open>SearchUsersInTeam\<close> hands the query it built to the user index, in one call, unless
  the restriction list is present and empty.
\<close>

lemma SearchUsersInTeam_submits_rootQ:
  assumes "restrictedToChannels \<noteq> Some []" and "userIndex b = Some uix"
  shows "snd (snd (SearchUsersInTeam e teamId restrictedToChannels term options b h)) =
           h @ [Search uix (NewSearchRequest
                  (SearchUsersInTeam_rootQ e teamId restrictedToChannels term options))]"
  using assms
  by (cases restrictedToChannels) (simp_all add: SearchUsersInTeam_def Let_def split: sum.splits)

text \<open>
  The query of \<open>SearchUsersInTeam\<close> (lines 462 to 498) when the restriction list is nil
  or non-empty.
\<close>

lemma SearchUsersInTeam_rootQ_cases:
  "(teamId \<noteq> '''' \<longrightarrow>
      SearchUsersInTeam_rootQ e teamId None term options =
        BooleanQuery (prefixClause e term options @ [TermQuery teamId ''TeamsIds'']) [] [])
   \<and> SearchUsersInTeam_rootQ e teamId (Some (c # cs)) term options =
        BooleanQuery
          (prefixClause e term options
           @ [DisjunctionQuery (map (\<lambda>channelId. TermQuery channelId ''ChannelsIds'') (c # cs))])
          [] []
   \<and> SearchUsersInTeam_rootQ e '''' None '''' options = MatchAllQuery"
  by (auto simp add: SearchUsersInTeam_rootQ_def prefixClause_def termPrefixQ_def Let_def comp_def
        NewBooleanQuery_def NewPrefixQuery_def NewTermQuery_def NewDisjunctionQuery_def
        NewMatchAllQuery_def)

text \<open>
  Claim C7, as the claim states it, for a restriction list that is present and empty:
  with the team id \<open>team1\<close> and the term \<open>jo\<close> on a started engine, \<open>SearchUsersInTeam\<close>
  returns the empty list with the history still empty. No query is built or sent, and the
  boolean query with the \<open>TeamsIds\<close> MUST clause, which the nil list sends, is not among
  the calls.
\<close>

theorem SearchUsersInTeam_empty_list_counterexample:
  "SearchUsersInTeam sampleEnv ''team1'' (Some []) ''jo'' \<lparr>AllowFullNames = True\<rparr>
     startedEngine [] = (Return (Inr []), startedEngine, [])
   \<and> Search 6 (NewSearchRequest
         (BooleanQuery
            [PrefixQuery ''jo'' ''SuggestionsWithFullname'', TermQuery ''team1'' ''TeamsIds'']
            [] []))
       \<notin> set (snd (snd (SearchUsersInTeam sampleEnv ''team1'' (Some []) ''jo''
                          \<lparr>AllowFullNames = True\<rparr> startedEngine [])))"
  by (simp add: SearchUsersInTeam_def)

text \<open>
  Claim C7, amended to the nil list. On an engine with a user index, for every term and
  every options, the one call \<open>SearchUsersInTeam\<close> makes is a search of the user index,
  and its query is:
  with a nil restriction list and a team id, the boolean query whose MUST clauses are the
  prefix clause of the term, if any, and the term query on \<open>TeamsIds\<close> for the team id;
  with a non-empty restriction list, the boolean query whose MUST clauses are the prefix
  clause, if any, and the disjunction of term queries on \<open>ChannelsIds\<close> for the
  restricted channels, with no leaf on \<open>TeamsIds\<close>;
  with no term, no team id and a nil restriction list, the match-all query.
  With a restriction list that is present and empty the call returns the empty list and
  sends nothing.
\<close>

theorem SearchUsersInTeam_submitted_query:
  assumes "userIndex b = Some uix"
  shows
  "(teamId \<noteq> '''' \<longrightarrow>
      snd (snd (SearchUsersInTeam e teamId None term options b h)) =
        h @ [Search uix (NewSearchRequest
               (BooleanQuery (prefixClause e term options @ [TermQuery teamId ''TeamsIds''])
                  [] []))])
   \<and> snd (snd (SearchUsersInTeam e teamId (Some (c # cs)) term options b h)) =
        h @ [Search uix (NewSearchRequest
               (BooleanQuery
                  (prefixClause e term options
                   @ [DisjunctionQuery
                        (map (\<lambda>channelId. TermQuery channelId ''ChannelsIds'') (c # cs))])
                  [] []))]
   \<and> ''TeamsIds'' \<notin> set (queryFields
         (BooleanQuery
            (prefixClause e term options
             @ [DisjunctionQuery
                  (map (\<lambda>channelId. TermQuery channelId ''ChannelsIds'') (c # cs))])
            [] []))
   \<and> snd (snd (SearchUsersInTeam e '''' None '''' options b h)) =
        h @ [Search uix (NewSearchRequest MatchAllQuery)]
   \<and> SearchUsersInTeam e teamId (Some []) term options b h = (Return (Inr []), b, h)"
proof -
  have sent: "snd (snd (SearchUsersInTeam e t r s options b h)) =
      h @ [Search uix (NewSearchRequest (SearchUsersInTeam_rootQ e t r s options))]"
    if "r \<noteq> Some []" for t r s
    using that assms by (rule SearchUsersInTeam_submits_rootQ)
  have fields: "''TeamsIds'' \<notin> set (concat (map queryFields (prefixClause e term options)))"
    by (simp add: prefixClause_def)
  have empty: "SearchUsersInTeam e teamId (Some []) term options b h = (Return (Inr []), b, h)"
    by (simp add: SearchUsersInTeam_def)
  from SearchUsersInTeam_rootQ_cases [of teamId e "term" options c cs] fields empty
  show ?thesis
    by (auto simp add: sent comp_def)
qed

theorem SearchUsersInTeam_submitted_query_witness:
  "userIndex startedEngine = Some 6
   \<and> snd (snd (SearchUsersInTeam sampleEnv ''team1'' None ''jo'' \<lparr>AllowFullNames = True\<rparr>
                  startedEngine [])) =
       [Search 6 (NewSearchRequest
          (BooleanQuery
             [PrefixQuery ''jo'' ''SuggestionsWithFullname'', TermQuery ''team1'' ''TeamsIds'']
             [] []))]
   \<and> snd (snd (SearchUsersInTeam sampleEnv ''team1'' (Some [''chan2'', ''chan3'']) ''jo''
                  \<lparr>AllowFullNames = True\<rparr> startedEngine [])) =
       [Search 6 (NewSearchRequest
          (BooleanQuery
             [PrefixQuery ''jo'' ''SuggestionsWithFullname'',
              DisjunctionQuery
                [TermQuery ''chan2'' ''ChannelsIds'', TermQuery ''chan3'' ''ChannelsIds'']]
             [] []))]
   \<and> snd (snd (SearchUsersInTeam sampleEnv '''' None '''' \<lparr>AllowFullNames = True\<rparr>
                  startedEngine [])) =
       [Search 6 (NewSearchRequest MatchAllQuery)]
   \<and> SearchUsersInTeam sampleEnv ''team1'' (Some []) ''jo'' \<lparr>AllowFullNames = True\<rparr>
        startedEngine [] = (Return (Inr []), startedEngine, [])"
proof -
  have ix: "userIndex startedEngine = Some 6"
    by (simp add: startedEngine_def)
  from SearchUsersInTeam_submitted_query
         [OF ix, of "''team1''" sampleEnv "''jo''" "\<lparr>AllowFullNames = True\<rparr>" "[]"
            "''chan2''" "[''chan3'']"]
       ix
  show ?thesis
    by (simp add: prefixClause_def sampleEnv_def)
qed

subsection \<open>The life cycle\<close>

lemma Stop_inactive:
  "\<not> IsActive b \<Longrightarrow> Stop e b h = (Return None, b, h @ [Warn ''Stopping Bleve''])"
  by (simp add: Stop_def)

text \<open>
  Claim C8. When the engine is inactive and the new configuration enables indexing with
  a non-empty index directory, \<open>UpdateConfig\<close> runs \<open>Stop\<close> (which returns and closes
  nothing, the engine being inactive), stores the new configuration, runs \<open>Start\<close> on the
  result, and ends in the engine and the history that \<open>Start\<close> leaves. In every other
  case it stores the new configuration, changes no other field of the engine and calls
  nothing.
\<close>

theorem UpdateConfig_cases:
  "(\<not> IsActive b \<and> EnableIndexing (BleveSettings c) \<and> IndexDir (BleveSettings c) \<noteq> '''' \<longrightarrow>
      (\<exists>h1 r b2 h2.
         Stop e b h = (Return None, b, h1)
       \<and> h1 = h @ [Warn ''Stopping Bleve'']
       \<and> Start e (b\<lparr>cfg := c\<rparr>) h1 = (r, b2, h2)
       \<and> UpdateConfig e c b h = (Return (), b2, h2)))
   \<and> (\<not> (\<not> IsActive b \<and> EnableIndexing (BleveSettings c) \<and> IndexDir (BleveSettings c) \<noteq> '''') \<longrightarrow>
      (\<exists>b'. UpdateConfig e c b h = (Return (), b', h)
         \<and> cfg b' = c
         \<and> postIndex b' = postIndex b
         \<and> userIndex b' = userIndex b
         \<and> channelIndex b' = channelIndex b
         \<and> jobServer b' = jobServer b
         \<and> indexSync b' = indexSync b))"
  by (cases "Start e (b\<lparr>cfg := c\<rparr>) (h @ [Warn ''Stopping Bleve''])")
     (auto simp add: UpdateConfig_def Stop_inactive)

theorem UpdateConfig_cases_witness:
  "\<not> IsActive (NewBleveEngine (sampleConfig False '''') 0)
   \<and> EnableIndexing (BleveSettings (sampleConfig True ''/data''))
   \<and> IndexDir (BleveSettings (sampleConfig True ''/data'')) \<noteq> ''''
   \<and> (\<exists>r b2 h2.
        Start sampleEnv ((NewBleveEngine (sampleConfig False '''') 0)\<lparr>cfg := sampleConfig True ''/data''\<rparr>)
          [Warn ''Stopping Bleve''] = (r, b2, h2)
      \<and> UpdateConfig sampleEnv (sampleConfig True ''/data'')
          (NewBleveEngine (sampleConfig False '''') 0) [] = (Return (), b2, h2)
      \<and> postIndex b2 = Some 3 \<and> userIndex b2 = Some 5 \<and> channelIndex b2 = Some 7
      \<and> cfg b2 = sampleConfig True ''/data'')
   \<and> IsActive startedEngine
   \<and> UpdateConfig sampleEnv (sampleConfig False ''/data'') startedEngine [] =
       (Return (), startedEngine\<lparr>cfg := sampleConfig False ''/data''\<rparr>, [])"
proof -
  have inactive: "\<not> IsActive (NewBleveEngine (sampleConfig False '''') 0)"
    by (simp add: IsActive_def NewBleveEngine_def sampleConfig_def)
  have active: "IsActive startedEngine"
    by (simp add: IsActive_def startedEngine_def sampleConfig_def)
  have enabled: "EnableIndexing (BleveSettings (sampleConfig True ''/data''))
      \<and> IndexDir (BleveSettings (sampleConfig True ''/data'')) \<noteq> ''''"
    by (simp add: sampleConfig_def)
  have started: "Start sampleEnv
      ((NewBleveEngine (sampleConfig False '''') 0)\<lparr>cfg := sampleConfig True ''/data''\<rparr>)
      [Warn ''Stopping Bleve''] =
      (None,
       \<lparr>postIndex = Some 3, userIndex = Some 5, channelIndex = Some 7,
        cfg = sampleConfig True ''/data'', jobServer = 0, indexSync = False\<rparr>,
       [Warn ''Stopping Bleve'', Warn ''Starting Bleve'',
        Open ''/data/posts.bleve'', New ''/data/posts.bleve'' getPostIndexMapping,
        Open ''/data/users.bleve'', New ''/data/users.bleve'' getUserIndexMapping,
        Open ''/data/channels.bleve'', New ''/data/channels.bleve'' getChannelIndexMapping])"
    by (simp add: Start_def createOrOpenIndex_def NewBleveEngine_def sampleConfig_def
          sampleEnv_def Let_def)
  from UpdateConfig_cases
         [of "NewBleveEngine (sampleConfig False '''') 0" "sampleConfig True ''/data''"
             sampleEnv "[]"]
       UpdateConfig_cases [of startedEngine "sampleConfig False ''/data''" sampleEnv "[]"]
       inactive active enabled started
  show ?thesis
    by (auto simp add: startedEngine_def)
qed

text \<open>
  Claim C10. \<open>RefreshIndexes\<close>, \<open>PurgeIndexes\<close>, \<open>DataRetentionDeleteIndexes\<close> and
  \<open>TestConfig\<close> return nil and leave the engine as it was, for every engine, history,
  cutoff and configuration; the only call any of them makes is the warning that
  \<open>PurgeIndexes\<close> and \<open>TestConfig\<close> log.
\<close>

theorem noop_operations:
  "RefreshIndexes b h = (None, b, h)
   \<and> PurgeIndexes b h = (None, b, h @ [Warn ''PurgeIndexes Bleve''])
   \<and> DataRetentionDeleteIndexes cutoff b h = (None, b, h)
   \<and> TestConfig c b h = (None, b, h @ [Warn ''TestConfig Bleve''])"
  by (simp add: RefreshIndexes_def PurgeIndexes_def DataRetentionDeleteIndexes_def
        TestConfig_def)

end
